theory Spec2Isabelle
  imports Complex_Main "HOL-Library.AList"
begin

section \<open>Value types (categorical/types.py as used by monad.py and quality.py)\<close>

text \<open>
  Python floats are modelled as real numbers, Python ints as \<open>int\<close>, Python strings as
  \<open>string\<close> (lists of 8-bit characters, read as ASCII text). A dictionary with string
  keys is a map; the values of a \<open>context\<close> dictionary are arbitrary Python objects, of
  which the model keeps the scalars, lists of strings and the three kinds of object the
  Functor stores.
\<close>

datatype strategy = DirectExecution | MultiApproachSynthesis | AutonomousEvolution

record complexity_analysis =
  overall :: real

datatype pyscalar = PyNone | PyBool bool | PyNum real | PyStr string

record task =
  description :: string
  complexity :: "complexity_analysis option"
  constraints :: "string list"
  examples :: "string list"
  metadata :: "string \<rightharpoonup> pyscalar"

datatype pyval =
  Scalar pyscalar
  | StrList "string list"
  | TaskObj task
  | ComplexityObj complexity_analysis
  | StrategyObj strategy

text \<open>\<open>Prompt\<close>; its field \<open>context\<close> is \<open>pcontext\<close> here.\<close>

record prompt =
  template :: string
  variables :: "string \<rightharpoonup> string"
  pcontext :: "string \<rightharpoonup> pyval"
  meta_level :: int

text \<open>\<open>QualityScore\<close>; its field \<open>value\<close> is \<open>qvalue\<close> here.\<close>

record quality_score =
  qvalue :: real
  components :: "string \<rightharpoonup> real"

datatype py_error = TypeError | ValueError | IndexError

section \<open>String primitives of Python used by quality.py\<close>

text \<open>\<open>str.isspace\<close> on ASCII: tab, line feed, vertical tab, form feed, carriage
  return, the four separators 0x1C..0x1F and the blank.\<close>

definition is_space :: "char \<Rightarrow> bool" where
  "is_space c = (let n = (of_char c :: nat) in (9 \<le> n \<and> n \<le> 13) \<or> (28 \<le> n \<and> n \<le> 32))"

text \<open>The regular-expression class \<open>\w\<close> on ASCII: letters, digits and the underscore.\<close>

definition is_word_char :: "char \<Rightarrow> bool" where
  "is_word_char c = (let n = (of_char c :: nat) in
     (48 \<le> n \<and> n \<le> 57) \<or> (65 \<le> n \<and> n \<le> 90) \<or> n = 95 \<or> (97 \<le> n \<and> n \<le> 122))"

definition lower_char :: "char \<Rightarrow> char" where
  "lower_char c = (let n = (of_char c :: nat) in
     if 65 \<le> n \<and> n \<le> 90 then char_of (n + 32) else c)"

text \<open>\<open>s.lower()\<close>\<close>

definition lower :: "string \<Rightarrow> string" where
  "lower s = map lower_char s"

text \<open>\<open>s.strip()\<close>\<close>

definition strip :: "string \<Rightarrow> string" where
  "strip s = rev (dropWhile is_space (rev (dropWhile is_space s)))"

text \<open>\<open>sub in s\<close>\<close>

fun contains :: "string \<Rightarrow> string \<Rightarrow> bool" where
  "contains sub [] = (sub = [])"
| "contains sub (c # cs) = (take (length sub) (c # cs) = sub \<or> contains sub cs)"

text \<open>\<open>s.count(sub)\<close>: the number of non-overlapping occurrences, scanning from the left.\<close>

function count_sub :: "string \<Rightarrow> string \<Rightarrow> nat" where
  "count_sub sub s =
     (if sub = [] then Suc (length s)
      else if length s < length sub then 0
      else if take (length sub) s = sub then Suc (count_sub sub (drop (length sub) s))
      else count_sub sub (tl s))"
  by pat_completeness auto
termination
proof (relation "measure (\<lambda>(sub, s). length s)")
  show "wf (measure (\<lambda>(sub :: string, s :: string). length s))"
    by simp
next
  fix sub s :: string
  assume "sub \<noteq> []" and "\<not> length s < length sub"
  then have "0 < length sub" and "length sub \<le> length s"
    by simp_all
  then have "length s - length sub < length s"
    by arith
  then show "((sub, drop (length sub) s), (sub, s)) \<in> measure (\<lambda>(sub, s). length s)"
    by simp
next
  fix sub s :: string
  assume "sub \<noteq> []" and "\<not> length s < length sub"
  then have "0 < length s"
    by (cases s) simp_all
  then show "((sub, tl s), (sub, s)) \<in> measure (\<lambda>(sub, s). length s)"
    by simp
qed

declare count_sub.simps [simp del]

text \<open>\<open>s.split(sep)\<close> for a separator of one character.\<close>

fun split_char :: "char \<Rightarrow> string \<Rightarrow> string list" where
  "split_char sep [] = [[]]"
| "split_char sep (c # cs) =
     (if c = sep then [] # split_char sep cs
      else (case split_char sep cs of [] \<Rightarrow> [[c]] | w # ws \<Rightarrow> (c # w) # ws))"

text \<open>The maximal runs of characters that satisfy \<open>P\<close>, from the left; \<open>cur\<close> is the
  run being read.\<close>

fun runs :: "(char \<Rightarrow> bool) \<Rightarrow> string \<Rightarrow> string \<Rightarrow> string list" where
  "runs P cur [] = (if cur = [] then [] else [cur])"
| "runs P cur (c # cs) =
     (if P c then runs P (cur @ [c]) cs
      else if cur = [] then runs P [] cs
      else cur # runs P [] cs)"

text \<open>\<open>s.split()\<close>: the runs of non-blank characters.\<close>

definition split_ws :: "string \<Rightarrow> string list" where
  "split_ws s = runs (\<lambda>c. \<not> is_space c) [] s"

text \<open>\<open>re.findall(r'\b\w+\b', s)\<close>: the maximal runs of word characters.\<close>

definition findall_words :: "string \<Rightarrow> string list" where
  "findall_words s = runs is_word_char [] s"

section \<open>quality.py\<close>

definition stop_words :: "string list" where
  "stop_words = [''the'', ''a'', ''an'', ''and'', ''or'', ''but'', ''in'', ''on'', ''at'',
     ''to'', ''for'', ''is'', ''are'', ''was'', ''were'']"

text \<open>\<open>extract_keywords\<close>; \<open>list(set(keywords))\<close> keeps one copy of each keyword.\<close>

definition extract_keywords :: "string \<Rightarrow> string list" where
  "extract_keywords text =
     (let words = findall_words (lower text);
          keywords = filter (\<lambda>w. w \<notin> set stop_words \<and> length w > 3) words
      in remdups keywords)"

text \<open>\<open>_assess_correctness\<close>\<close>

definition assess_correctness :: "string \<Rightarrow> prompt \<Rightarrow> real" where
  "assess_correctness output p =
     (let score = 0.5;
          score = (if length (strip output) > 10 then score + 0.2 else score);
          score = (if length output > 50 then score + 0.1 else score);
          score = (if length output < 2000 then score + 0.1 else score);
          error_keywords = [''error'', ''cannot'', ''unable'', ''impossible'', ''unclear''];
          score = (if \<not> list_ex (\<lambda>kw. contains kw (lower output)) error_keywords
                   then score + 0.1 else score)
      in min score 1.0)"

text \<open>\<open>_assess_clarity\<close>\<close>

definition assess_clarity :: "string \<Rightarrow> real" where
  "assess_clarity output =
     (let score = 0.5;
          score = (if count_sub ''\<newline>\<newline>'' output \<ge> 1 then score + 0.15 else score);
          score = (if list_ex (\<lambda>marker. contains marker output) [''- '', ''* '', ''1.'', ''2.'']
                   then score + 0.15 else score);
          sentences = split_char (CHR ''.'') output;
          avg_sentence_len =
            real (sum_list (map (\<lambda>s. length (split_ws s)) sentences))
              / real (max (length sentences) 1);
          score = (if 10 \<le> avg_sentence_len \<and> avg_sentence_len \<le> 30
                   then score + 0.1 else score);
          explanatory_words = [''because'', ''therefore'', ''thus'', ''since'', ''so''];
          score = (if list_ex (\<lambda>word. contains word (lower output)) explanatory_words
                   then score + 0.1 else score)
      in min score 1.0)"

text \<open>\<open>_assess_completeness\<close>. \<open>Prompt.render\<close> lives in types.py, which is not among
  the sources: it is the parameter \<open>render\<close>, any function from prompts to strings.\<close>

definition assess_completeness :: "(prompt \<Rightarrow> string) \<Rightarrow> string \<Rightarrow> prompt \<Rightarrow> real" where
  "assess_completeness render output p =
     (let score = 0.6;
          prompt_keywords = extract_keywords (render p);
          output_lower = lower output;
          keyword_coverage =
            real (length (filter (\<lambda>kw. contains kw output_lower) prompt_keywords))
              / real (max (length prompt_keywords) 1);
          score = score + 0.2 * keyword_coverage;
          score = (if contains ''example'' (lower output) \<or> contains ''e.g.'' (lower output)
                   then score + 0.1 else score);
          score = (if list_ex (\<lambda>term. contains term (lower output))
                        [''edge case'', ''corner case'', ''special case'']
                   then score + 0.1 else score)
      in min score 1.0)"

text \<open>\<open>_assess_efficiency\<close>\<close>

definition assess_efficiency :: "string \<Rightarrow> real" where
  "assess_efficiency output =
     (let score = 0.7;
          score = (if list_ex (\<lambda>term. contains term (lower output))
                        [''o(n)'', ''o(log n)'', ''complexity'', ''efficient'']
                   then score + 0.15 else score);
          score = (if list_ex (\<lambda>term. contains term (lower output))
                        [''optimize'', ''improve'', ''faster'', ''better'']
                   then score + 0.1 else score);
          inefficient_keywords = [''nested loop'', ''o(n^3)'', ''brute force'', ''exponential''];
          score = (if \<not> list_ex (\<lambda>kw. contains kw (lower output)) inefficient_keywords
                   then score + 0.05 else score)
      in min score 1.0)"

text \<open>The weights of \<open>assess_quality\<close>.\<close>

definition weights :: "(string \<times> real) list" where
  "weights = [(''correctness'', 0.4), (''clarity'', 0.3), (''completeness'', 0.2),
     (''efficiency'', 0.1)]"

text \<open>\<open>assess_quality\<close>: the components in the order they are inserted, and the sum over
  them of \<open>components[k] * weights[k]\<close>.\<close>

definition assess_quality :: "(prompt \<Rightarrow> string) \<Rightarrow> string \<Rightarrow> prompt \<Rightarrow> quality_score" where
  "assess_quality render output p =
     (let comps = [(''correctness'', assess_correctness output p),
                   (''clarity'', assess_clarity output),
                   (''completeness'', assess_completeness render output p),
                   (''efficiency'', assess_efficiency output)];
          overall = sum_list (map (\<lambda>(k, v). v * the (map_of weights k)) comps)
      in \<lparr>qvalue = overall, components = map_of comps\<rparr>)"

text \<open>\<open>current_quality <= prev_quality\<close> with a float on the left: a number or a bool
  on the right is compared, anything else raises \<open>TypeError\<close>.\<close>

fun float_le :: "real \<Rightarrow> pyval \<Rightarrow> py_error + bool" where
  "float_le x (Scalar (PyNum y)) = Inr (x \<le> y)"
| "float_le x (Scalar (PyBool b)) = Inr (x \<le> (if b then 1 else 0))"
| "float_le x v = Inl TypeError"

text \<open>\<open>MonadPrompt\<close> (monad.py). Its \<open>timestamp\<close> is the wall clock at construction;
  no operation reads it, and the model leaves it out.\<close>

record monad_prompt =
  prompt :: prompt
  quality :: quality_score
  meta_level :: int
  history :: "prompt list"

text \<open>\<open>extract_improvement\<close>: three rules in sequence over one dictionary.\<close>

definition extract_improvement :: "monad_prompt \<Rightarrow> py_error + (string \<rightharpoonup> pyval)" where
  "extract_improvement mp =
     (let improvements = Map.empty;
          improvements =
            (if qvalue (quality mp) < 0.80
             then improvements(''needs_clarity'' \<mapsto> Scalar (PyBool True),
                               ''strategy'' \<mapsto> Scalar (PyStr ''add_structure''))
             else improvements);
          improvements =
            (if monad_prompt.meta_level mp = 0
             then improvements(''add_meta_reflection'' \<mapsto> Scalar (PyBool True),
                               ''strategy'' \<mapsto> Scalar (PyStr ''add_reasoning_steps''))
             else improvements)
      in if length (history mp) > 0
         then (let prev_quality =
                     (case pcontext (last (history mp)) ''quality'' of
                        None \<Rightarrow> Scalar (PyNum 0.5)
                      | Some v \<Rightarrow> v);
                   current_quality = qvalue (quality mp)
               in case float_le current_quality prev_quality of
                    Inl e \<Rightarrow> Inl e
                  | Inr stagnant \<Rightarrow>
                      Inr (if stagnant
                           then improvements(''quality_stagnant'' \<mapsto> Scalar (PyBool True),
                                             ''strategy'' \<mapsto> Scalar (PyStr ''try_different_approach''))
                           else improvements))
         else Inr improvements)"

text \<open>\<open>v == 'text'\<close> for a string literal on the right: true of that string only.\<close>

fun eq_str :: "pyval \<Rightarrow> string \<Rightarrow> bool" where
  "eq_str (Scalar (PyStr s)) t = (s = t)"
| "eq_str v t = False"

text \<open>\<open>integrate_improvement\<close>\<close>

definition integrate_improvement :: "prompt \<Rightarrow> (string \<rightharpoonup> pyval) \<Rightarrow> prompt" where
  "integrate_improvement p improvement =
     (let enhanced_template = template p;
          strategy = (case improvement ''strategy'' of
                        None \<Rightarrow> Scalar (PyStr [])
                      | Some v \<Rightarrow> v);
          enhanced_template =
            (if eq_str strategy ''add_structure''
             then ''Let's approach this systematically:\<newline>\<newline>'' @ enhanced_template
                  @ ''\<newline>\<newline>Provide your solution with clear structure:\<newline>1. Analysis\<newline>2. Approach\<newline>3. Solution\<newline>4. Verification''
             else if eq_str strategy ''add_reasoning_steps''
             then ''Think step-by-step about this problem:\<newline>\<newline>'' @ enhanced_template
                  @ ''\<newline>\<newline>Show your reasoning process:\<newline>- What is the core problem?\<newline>- What approach will you use?\<newline>- Why is this approach optimal?\<newline>- What is the final solution?''
             else if eq_str strategy ''try_different_approach''
             then ''Consider alternative approaches to this problem:\<newline>\<newline>'' @ enhanced_template
                  @ ''\<newline>\<newline>Explore multiple solution strategies:\<newline>1. Approach A: [describe]\<newline>2. Approach B: [describe]\<newline>3. Best approach: [select and justify]\<newline>4. Final solution: [implement]''
             else enhanced_template)
      in \<lparr>template = enhanced_template,
          variables = variables p,
          pcontext = (pcontext p)(''improved'' \<mapsto> Scalar (PyBool True),
                                  ''improvement_strategy'' \<mapsto> strategy),
          prompt.meta_level = prompt.meta_level p + 1\<rparr>)"

section \<open>monad.py\<close>

text \<open>Modelled from the spec: \<open>QualityScore.tensor_product\<close> (types.py is not among the
  sources). The spec fixes the value of the result, the minimum of the two values; the
  components of the result, which nothing in monad.py or quality.py reads, are left empty.\<close>

definition tensor_product :: "quality_score \<Rightarrow> quality_score \<Rightarrow> quality_score" where
  "tensor_product q1 q2 = \<lparr>qvalue = min (qvalue q1) (qvalue q2), components = Map.empty\<rparr>"

text \<open>
  The completion collaborator \<open>llm_client.complete\<close> is a total function that may
  depend on and change a state of its own (a call counter, a source of randomness):
  \<open>llm_complete text s\<close> is the completion and the next state. A monadic function
  \<open>f : Prompt \<rightarrow> MonadPrompt\<close> threads the same state, since it may call the
  collaborator. The only exception raised by the code of monad.py and quality.py itself
  is the \<open>TypeError\<close> of \<open>extract_improvement\<close>.
\<close>

type_synonym 's completion = "string \<Rightarrow> 's \<Rightarrow> string \<times> 's"

type_synonym 's kleisli = "prompt \<Rightarrow> 's \<Rightarrow> monad_prompt \<times> 's"

text \<open>The dataclass \<open>Monad\<close>: its two fields.\<close>

record 's monad =
  unit :: "'s kleisli"
  join :: "monad_prompt \<Rightarrow> 's \<Rightarrow> py_error + monad_prompt \<times> 's"

text \<open>The nested value \<open>M(M(B))\<close> that \<open>Monad.bind\<close> builds from \<open>ma\<close> and
  \<open>mb = f(ma.prompt)\<close>.\<close>

definition nested_monad :: "monad_prompt \<Rightarrow> monad_prompt \<Rightarrow> monad_prompt" where
  "nested_monad ma mb =
     \<lparr>prompt = prompt mb,
      quality = tensor_product (quality ma) (quality mb),
      meta_level = monad_prompt.meta_level ma + 1,
      history = history ma @ [prompt ma]\<rparr>"

text \<open>\<open>Monad.bind\<close>\<close>

definition bind :: "'s monad \<Rightarrow> monad_prompt \<Rightarrow> 's kleisli \<Rightarrow> 's \<Rightarrow> py_error + monad_prompt \<times> 's" where
  "bind M ma f s =
     (let (mb, s1) = f (prompt ma) s;
          nested = nested_monad ma mb
      in join M nested s1)"

text \<open>\<open>str(n)\<close> for an int.\<close>

fun digits :: "nat \<Rightarrow> string" where
  "digits n = (if n < 10 then [char_of (48 + n)] else digits (n div 10) @ [char_of (48 + n mod 10)])"

declare digits.simps [simp del]

definition str_int :: "int \<Rightarrow> string" where
  "str_int i = (if i < 0 then CHR ''-'' # digits (nat (- i)) else digits (nat i))"

text \<open>\<open>Monad._hash_prompt\<close>; \<open>sha256\<close> stands for the hex digest of the SHA-256 of
  the encoded string, a parameter.\<close>

definition hash_prompt :: "(string \<Rightarrow> string) \<Rightarrow> prompt \<Rightarrow> string" where
  "hash_prompt sha256 p =
     (let prompt_str = template p @ ''_'' @ str_int (prompt.meta_level p)
      in sha256 prompt_str)"

text \<open>\<open>Monad._monadic_prompts_equal\<close>\<close>

definition monadic_prompts_equal :: "(string \<Rightarrow> string) \<Rightarrow> monad_prompt \<Rightarrow> monad_prompt \<Rightarrow> bool" where
  "monadic_prompts_equal sha256 mp1 mp2 =
     (hash_prompt sha256 (prompt mp1) = hash_prompt sha256 (prompt mp2)
      \<and> \<bar>qvalue (quality mp1) - qvalue (quality mp2)\<bar> < 0.01
      \<and> monad_prompt.meta_level mp1 = monad_prompt.meta_level mp2)"

text \<open>\<open>Monad.verify_left_identity\<close>: \<open>unit(a)\<close>, then the bind, then \<open>f(a)\<close>.\<close>

definition verify_left_identity ::
  "'s monad \<Rightarrow> (string \<Rightarrow> string) \<Rightarrow> prompt \<Rightarrow> 's kleisli \<Rightarrow> 's \<Rightarrow> py_error + bool \<times> 's" where
  "verify_left_identity M sha256 a f s =
     (let (ua, s1) = unit M a s
      in case bind M ua f s1 of
           Inl e \<Rightarrow> Inl e
         | Inr (left_side, s2) \<Rightarrow>
             (let (right_side, s3) = f a s2
              in Inr (monadic_prompts_equal sha256 left_side right_side, s3)))"

text \<open>\<open>Monad.verify_right_identity\<close>\<close>

definition verify_right_identity ::
  "'s monad \<Rightarrow> (string \<Rightarrow> string) \<Rightarrow> monad_prompt \<Rightarrow> 's \<Rightarrow> py_error + bool \<times> 's" where
  "verify_right_identity M sha256 ma s =
     (case bind M ma (unit M) s of
        Inl e \<Rightarrow> Inl e
      | Inr (left_side, s1) \<Rightarrow>
          (let right_side = ma
           in Inr (monadic_prompts_equal sha256 left_side right_side, s1)))"

text \<open>The \<open>unit\<close> of \<open>create_recursive_meta_monad\<close>\<close>

definition rmp_unit :: "'s completion \<Rightarrow> (prompt \<Rightarrow> string) \<Rightarrow> 's kleisli" where
  "rmp_unit llm_complete render p s =
     (let (output, s1) = llm_complete (render p) s;
          quality = assess_quality render output p
      in (\<lparr>prompt = p, quality = quality, meta_level = 0, history = []\<rparr>, s1))"

text \<open>The \<open>join\<close> of \<open>create_recursive_meta_monad\<close>\<close>

definition rmp_join ::
  "'s completion \<Rightarrow> (prompt \<Rightarrow> string) \<Rightarrow> monad_prompt \<Rightarrow> 's \<Rightarrow> py_error + monad_prompt \<times> 's" where
  "rmp_join llm_complete render nested s =
     (case extract_improvement nested of
        Inl e \<Rightarrow> Inl e
      | Inr improvement \<Rightarrow>
          (let enhanced_prompt = integrate_improvement (prompt nested) improvement;
               (new_output, s1) = llm_complete (render enhanced_prompt) s;
               new_quality = assess_quality render new_output enhanced_prompt
           in Inr (\<lparr>prompt = enhanced_prompt,
                     quality = new_quality,
                     meta_level = monad_prompt.meta_level nested,
                     history = history nested\<rparr>, s1)))"

text \<open>\<open>create_recursive_meta_monad\<close>; its \<open>quality_threshold\<close> is not used by the code.\<close>

definition create_recursive_meta_monad :: "'s completion \<Rightarrow> (prompt \<Rightarrow> string) \<Rightarrow> 's monad" where
  "create_recursive_meta_monad llm_complete render =
     \<lparr>unit = rmp_unit llm_complete render, join = rmp_join llm_complete render\<rparr>"

text \<open>The entry \<open>context['quality']\<close> of a prompt is absent, a number or a bool: the
  cases in which the comparison of \<open>extract_improvement\<close> does not raise.\<close>

definition quality_entry_numeric :: "prompt \<Rightarrow> bool" where
  "quality_entry_numeric p =
     (case pcontext p ''quality'' of
        None \<Rightarrow> True
      | Some (Scalar (PyNum y)) \<Rightarrow> True
      | Some (Scalar (PyBool b)) \<Rightarrow> True
      | Some v \<Rightarrow> False)"

text \<open>The third rule of \<open>extract_improvement\<close> on its own: whether the stagnation
  rule fires, or the \<open>TypeError\<close> of its comparison.\<close>

definition stagnation_check :: "monad_prompt \<Rightarrow> py_error + bool" where
  "stagnation_check mp =
     (if history mp = [] then Inr False
      else float_le (qvalue (quality mp))
             (case pcontext (last (history mp)) ''quality'' of
                None \<Rightarrow> Scalar (PyNum 0.5)
              | Some v \<Rightarrow> v))"

section \<open>Functor (strategy.py and functor.py)\<close>

text \<open>Modelled from the spec: \<open>select_strategy\<close> (strategy.py is not among the sources).
  A three-way threshold on the overall complexity: below 0.3 Direct Execution, from 0.3
  and below 0.7 Multi-Approach Synthesis, from 0.7 Autonomous Evolution.\<close>

definition select_strategy :: "complexity_analysis \<Rightarrow> strategy" where
  "select_strategy c =
     (if overall c < 0.3 then DirectExecution
      else if overall c < 0.7 then MultiApproachSynthesis
      else AutonomousEvolution)"

text \<open>The \<open>name\<close> of a strategy, as \<open>test_functor.py\<close> reads it.\<close>

fun strategy_name :: "strategy \<Rightarrow> string" where
  "strategy_name DirectExecution = ''Direct Execution''"
| "strategy_name MultiApproachSynthesis = ''Multi-Approach Synthesis''"
| "strategy_name AutonomousEvolution = ''Autonomous Evolution''"

text \<open>Modelled from the spec: \<open>Functor.map_object\<close> (functor.py is not among the
  sources). It analyses the complexity of the task, selects the strategy from it and
  attaches the task, the complexity and the strategy to the context of the prompt. The
  complexity analyser and the text of the prompt (template and variables, which depend on
  the strategy and the task) are parameters.\<close>

definition map_object ::
  "(task \<Rightarrow> complexity_analysis) \<Rightarrow> (strategy \<Rightarrow> task \<Rightarrow> string \<times> (string \<rightharpoonup> string))
     \<Rightarrow> task \<Rightarrow> prompt" where
  "map_object analyze_complexity scaffold t =
     (let c = analyze_complexity t;
          st = select_strategy c;
          (tmpl, vars) = scaffold st t
      in \<lparr>template = tmpl,
          variables = vars,
          pcontext = [''task'' \<mapsto> TaskObj t, ''complexity'' \<mapsto> ComplexityObj c,
                      ''strategy'' \<mapsto> StrategyObj st],
          prompt.meta_level = 0\<rparr>)"

section \<open>Comonad (comonad.py)\<close>

text \<open>Modelled from the spec: \<open>Observation\<close> (comonad.py is not among the sources).
  \<open>current\<close> holds a plain value or another observation; \<open>context\<close> and
  \<open>metadata\<close> are dictionaries in insertion order (\<open>obs_context\<close>, \<open>obs_metadata\<close>),
  \<open>history\<close> is \<open>obs_history\<close>.\<close>

datatype obs_value = Plain pyscalar | Nested observation
  and observation =
    Observation (current: obs_value)
                (obs_context: "(string \<times> pyval) list")
                (obs_history: "observation list")
                (obs_metadata: "(string \<times> pyval) list")
                (obs_timestamp: real)

text \<open>Modelled from the spec: \<open>Comonad.extract\<close>, the \<open>current\<close> field, with no
  side effects. An observation always holds a \<open>current\<close> value and has no list of
  entries that could be empty (\<open>test_comonad.py\<close> builds every observation with an
  empty history and expects \<open>extract\<close> to return \<open>current\<close>), so the function is
  total.\<close>

definition comonad_extract :: "observation \<Rightarrow> obs_value" where
  "comonad_extract w = current w"

definition clamp01 :: "real \<Rightarrow> real" where
  "clamp01 x = max 0 (min 1 x)"

text \<open>Modelled from the spec: \<open>Comonad.duplicate\<close>. The new observation holds \<open>w\<close> as
  its \<open>current\<close>, \<open>[w] + w.history\<close> as its history, and the context and metadata of
  \<open>w\<close> extended with the meta-observation markers. The clock and the two heuristics
  (whose values the spec places in [0,1]) are parameters.\<close>

definition duplicate ::
  "real \<Rightarrow> (observation \<Rightarrow> real) \<Rightarrow> (observation \<Rightarrow> real) \<Rightarrow> observation \<Rightarrow> observation" where
  "duplicate now observation_quality completeness w =
     Observation
       (Nested w)
       (AList.update ''history_depth'' (Scalar (PyNum (real (length (obs_history w)))))
         (AList.update ''observation_timestamp'' (Scalar (PyNum now))
           (AList.update ''original_context_keys'' (StrList (map fst (obs_context w)))
             (AList.update ''meta_observation'' (Scalar (PyBool True)) (obs_context w)))))
       (w # obs_history w)
       (AList.update ''completeness'' (Scalar (PyNum (clamp01 (completeness w))))
         (AList.update ''observation_quality'' (Scalar (PyNum (clamp01 (observation_quality w))))
           (obs_metadata w)))
       now"

section \<open>ContextStore (the test file of the comonad laws)\<close>

text \<open>The classes \<open>ContextEntry\<close> and \<open>ContextStore\<close> of \<open>tests/test_comonad_laws.py\<close>.\<close>

record 'a context_entry =
  content :: 'a
  timestamp :: real
  focus_weight :: real
  metadata :: "string \<rightharpoonup> pyscalar"





section \<open>Properties of quality.py\<close>

text \<open>\<open>list(set(keywords))\<close> fixes no order of the keywords; the two counts that
  \<open>_assess_completeness\<close> takes of them do not depend on it.\<close>

lemma keyword_count_order_independent:
  assumes "distinct ks" and "distinct ks'" and "set ks = set ks'"
  shows "length (filter P ks) = length (filter P ks') \<and> length ks = length ks'"
  using assms by (metis distinct_card distinct_length_filter)

text \<open>Each sub-assessor stays between its base and 1.\<close>

lemma assess_correctness_bounds:
  "0.5 \<le> assess_correctness output p \<and> assess_correctness output p \<le> 1"
  by (simp add: assess_correctness_def Let_def)

lemma assess_clarity_bounds:
  "0.5 \<le> assess_clarity output \<and> assess_clarity output \<le> 1"
  by (simp add: assess_clarity_def Let_def)

lemma assess_efficiency_bounds:
  "0.7 \<le> assess_efficiency output \<and> assess_efficiency output \<le> 1"
  by (simp add: assess_efficiency_def Let_def)

lemma keyword_coverage_nonneg:
  "0 \<le> real (length (filter P ks)) / real (max (length ks) 1)"
  by simp

lemma assess_completeness_bounds:
  "0.6 \<le> assess_completeness render output p \<and> assess_completeness render output p \<le> 1"
proof -
  define cov where "cov = real (length (filter (\<lambda>kw. contains kw (lower output)) (extract_keywords (render p))))
              / real (max (length (extract_keywords (render p))) 1)"
  have "0 \<le> cov"
    unfolding cov_def by (rule keyword_coverage_nonneg)
  then show ?thesis
    unfolding assess_completeness_def Let_def cov_def [symmetric]
    by simp
qed

lemma assess_quality_value:
  "qvalue (assess_quality render output p) =
     0.4 * assess_correctness output p + 0.3 * assess_clarity output
       + 0.2 * assess_completeness render output p + 0.1 * assess_efficiency output"
  by (simp add: assess_quality_def weights_def Let_def)

lemma assess_quality_components:
  "components (assess_quality render output p) =
     [''correctness'' \<mapsto> assess_correctness output p,
      ''clarity'' \<mapsto> assess_clarity output,
      ''completeness'' \<mapsto> assess_completeness render output p,
      ''efficiency'' \<mapsto> assess_efficiency output]"
  by (simp add: assess_quality_def Let_def fun_eq_iff)

text \<open>
  C6. For every output string and every prompt, \<open>assess_quality\<close> returns a quality
  score whose components are exactly correctness, clarity, completeness and efficiency,
  each the value of its sub-assessor and each in [0,1], and whose value is
  0.4 * correctness + 0.3 * clarity + 0.2 * completeness + 0.1 * efficiency and lies in
  [0,1]. The score is a function of the output and the prompt alone, so two calls with the
  same input give the same score.
\<close>

theorem assess_quality_shape:
  "let q = assess_quality render output p in
    dom (components q) = {''correctness'', ''clarity'', ''completeness'', ''efficiency''}
    \<and> components q ''correctness'' = Some (assess_correctness output p)
    \<and> components q ''clarity'' = Some (assess_clarity output)
    \<and> components q ''completeness'' = Some (assess_completeness render output p)
    \<and> components q ''efficiency'' = Some (assess_efficiency output)
    \<and> 0 \<le> assess_correctness output p \<and> assess_correctness output p \<le> 1
    \<and> 0 \<le> assess_clarity output \<and> assess_clarity output \<le> 1
    \<and> 0 \<le> assess_completeness render output p \<and> assess_completeness render output p \<le> 1
    \<and> 0 \<le> assess_efficiency output \<and> assess_efficiency output \<le> 1
    \<and> qvalue q = 0.4 * assess_correctness output p + 0.3 * assess_clarity output
          + 0.2 * assess_completeness render output p + 0.1 * assess_efficiency output
    \<and> 0 \<le> qvalue q \<and> qvalue q \<le> 1"
proof -
  define q where "q = assess_quality render output p"
  note c = assess_correctness_bounds [of "output" p]
  note l = assess_clarity_bounds [of "output"]
  note m = assess_completeness_bounds [of render "output" p]
  note e = assess_efficiency_bounds [of "output"]
  have dom: "dom (components q) = {''correctness'', ''clarity'', ''completeness'', ''efficiency''}"
    unfolding q_def assess_quality_components by auto
  have look: "components q ''correctness'' = Some (assess_correctness output p)"
    "components q ''clarity'' = Some (assess_clarity output)"
    "components q ''completeness'' = Some (assess_completeness render output p)"
    "components q ''efficiency'' = Some (assess_efficiency output)"
    unfolding q_def assess_quality_components by simp_all
  have v: "qvalue q = 0.4 * assess_correctness output p + 0.3 * assess_clarity output
          + 0.2 * assess_completeness render output p + 0.1 * assess_efficiency output"
    unfolding q_def by (rule assess_quality_value)
  have lo: "0 \<le> qvalue q" and hi: "qvalue q \<le> 1"
    using c l m e unfolding v by simp_all
  from c have c0: "0 \<le> assess_correctness output p" by simp
  from l have l0: "0 \<le> assess_clarity output" by simp
  from m have m0: "0 \<le> assess_completeness render output p" by simp
  from e have e0: "0 \<le> assess_efficiency output" by simp
  show ?thesis
    unfolding Let_def q_def [symmetric]
    using dom look v lo hi c l m e c0 l0 m0 e0 by blast
qed

text \<open>
  C10. For every output string and every prompt the value of \<open>assess_quality\<close> is at
  least 0.54 = 0.4 * 0.5 + 0.3 * 0.5 + 0.2 * 0.6 + 0.1 * 0.7, the weighted sum of the bases
  of the four sub-assessors, which only add non-negative increments; in particular the
  value is never 0.
\<close>

theorem assess_quality_floor:
  "0.54 \<le> qvalue (assess_quality render output p) \<and> qvalue (assess_quality render output p) \<noteq> 0"
proof -
  have "0.54 \<le> qvalue (assess_quality render output p)"
    using assess_correctness_bounds [of "output" p] assess_clarity_bounds [of "output"]
      assess_completeness_bounds [of render "output" p] assess_efficiency_bounds [of "output"]
    unfolding assess_quality_value by simp
  then show ?thesis by simp
qed

section \<open>Properties of monad.py\<close>

text \<open>When \<open>extract_improvement\<close> returns and when it raises.\<close>

lemma float_le_numeric:
  "quality_entry_numeric p \<Longrightarrow>
     \<exists>b. float_le x (case pcontext p ''quality'' of None \<Rightarrow> Scalar (PyNum 0.5) | Some v \<Rightarrow> v) = Inr b"
  by (auto simp: quality_entry_numeric_def split: option.splits pyval.splits pyscalar.splits)

lemma float_le_not_numeric:
  "\<not> quality_entry_numeric p \<Longrightarrow>
     float_le x (case pcontext p ''quality'' of None \<Rightarrow> Scalar (PyNum 0.5) | Some v \<Rightarrow> v) = Inl TypeError"
  by (auto simp: quality_entry_numeric_def split: option.splits pyval.splits pyscalar.splits)

lemma extract_improvement_returns:
  assumes "history mp = [] \<or> quality_entry_numeric (last (history mp))"
  shows "\<exists>imp. extract_improvement mp = Inr imp"
proof (cases "history mp = []")
  case True
  then show ?thesis
    by (simp add: extract_improvement_def Let_def)
next
  case False
  with assms have "quality_entry_numeric (last (history mp))"
    by simp
  from float_le_numeric [OF this, of "qvalue (quality mp)"]
  obtain b where "float_le (qvalue (quality mp))
      (case pcontext (last (history mp)) ''quality'' of None \<Rightarrow> Scalar (PyNum 0.5) | Some v \<Rightarrow> v) = Inr b"
    by blast
  with False show ?thesis
    by (simp add: extract_improvement_def Let_def)
qed

lemma extract_improvement_raises:
  assumes "history mp \<noteq> []" and "\<not> quality_entry_numeric (last (history mp))"
  shows "extract_improvement mp = Inl TypeError"
  using assms(1) float_le_not_numeric [OF assms(2), of "qvalue (quality mp)"]
  by (simp add: extract_improvement_def Let_def)

lemma rmp_join_returns:
  assumes "extract_improvement nested = Inr imp"
  shows "\<exists>r s'. rmp_join llm_complete render nested s = Inr (r, s')
     \<and> prompt r = integrate_improvement (prompt nested) imp
     \<and> monad_prompt.meta_level r = monad_prompt.meta_level nested
     \<and> history r = history nested"
  using assms by (simp add: rmp_join_def Let_def split: prod.splits)

lemma rmp_join_raises:
  assumes "extract_improvement nested = Inl e"
  shows "rmp_join llm_complete render nested s = Inl e"
  using assms by (simp add: rmp_join_def)

lemma bind_unfold:
  "bind (create_recursive_meta_monad llm_complete render) ma f s =
     rmp_join llm_complete render (nested_monad ma (fst (f (prompt ma) s))) (snd (f (prompt ma) s))"
  by (simp add: bind_def create_recursive_meta_monad_def Let_def split: prod.splits)

lemma nested_monad_fields:
  "prompt (nested_monad ma mb) = prompt mb"
  "quality (nested_monad ma mb) = tensor_product (quality ma) (quality mb)"
  "monad_prompt.meta_level (nested_monad ma mb) = monad_prompt.meta_level ma + 1"
  "history (nested_monad ma mb) = history ma @ [prompt ma]"
  by (simp_all add: nested_monad_def)

lemma bind_returns:
  assumes "quality_entry_numeric (prompt ma)"
  shows "\<exists>r s'. bind (create_recursive_meta_monad llm_complete render) ma f s = Inr (r, s')
     \<and> monad_prompt.meta_level r = monad_prompt.meta_level ma + 1
     \<and> history r = history ma @ [prompt ma]"
proof -
  let ?n = "nested_monad ma (fst (f (prompt ma) s))"
  have "history ?n = [] \<or> quality_entry_numeric (last (history ?n))"
    using assms by (simp add: nested_monad_fields)
  then obtain imp where "extract_improvement ?n = Inr imp"
    using extract_improvement_returns by blast
  from rmp_join_returns [OF this, of llm_complete render "snd (f (prompt ma) s)"]
  show ?thesis
    unfolding bind_unfold by (auto simp: nested_monad_fields)
qed

lemma bind_raises:
  assumes "\<not> quality_entry_numeric (prompt ma)"
  shows "bind (create_recursive_meta_monad llm_complete render) ma f s = Inl TypeError"
proof -
  let ?n = "nested_monad ma (fst (f (prompt ma) s))"
  have "history ?n \<noteq> []" and "\<not> quality_entry_numeric (last (history ?n))"
    using assms by (simp_all add: nested_monad_fields)
  then have "extract_improvement ?n = Inl TypeError"
    by (rule extract_improvement_raises)
  then show ?thesis
    unfolding bind_unfold by (rule rmp_join_raises)
qed

lemma bind_meta_level:
  assumes "bind (create_recursive_meta_monad llm_complete render) ma f s = Inr (r, s')"
  shows "monad_prompt.meta_level r = monad_prompt.meta_level ma + 1"
proof (cases "quality_entry_numeric (prompt ma)")
  case True
  from bind_returns [OF True, of llm_complete render f s] assms show ?thesis
    by auto
next
  case False
  from bind_raises [OF False, of llm_complete render f s] assms show ?thesis
    by simp
qed

text \<open>
  C4. For every monadic value \<open>ma\<close> and every function \<open>f\<close> from prompts to monadic
  values, the result of \<open>bind(ma, f)\<close> has \<open>meta_level = ma.meta_level + 1\<close> and
  \<open>history = ma.history + [ma.prompt]\<close>; \<open>join\<close> returns its argument's
  \<open>meta_level\<close>, not incremented again, and its argument's history unchanged. Both
  return a result whenever the comparison of \<open>extract_improvement\<close> can be made (the
  entry \<open>context['quality']\<close> of the last prompt of the history is absent or a
  number), and raise \<open>TypeError\<close> otherwise.
\<close>

theorem bind_bookkeeping:
  "(let M = create_recursive_meta_monad llm_complete render in
     (if quality_entry_numeric (prompt ma)
      then (\<exists>r s'. bind M ma f s = Inr (r, s')
              \<and> monad_prompt.meta_level r = monad_prompt.meta_level ma + 1
              \<and> history r = history ma @ [prompt ma])
      else bind M ma f s = Inl TypeError)
     \<and> (if history nested = [] \<or> quality_entry_numeric (last (history nested))
        then (\<exists>r s'. join M nested s = Inr (r, s')
                \<and> monad_prompt.meta_level r = monad_prompt.meta_level nested
                \<and> history r = history nested)
        else join M nested s = Inl TypeError))"
proof -
  have b: "if quality_entry_numeric (prompt ma)
      then (\<exists>r s'. bind (create_recursive_meta_monad llm_complete render) ma f s = Inr (r, s')
              \<and> monad_prompt.meta_level r = monad_prompt.meta_level ma + 1
              \<and> history r = history ma @ [prompt ma])
      else bind (create_recursive_meta_monad llm_complete render) ma f s = Inl TypeError"
    using bind_returns [of ma llm_complete render f s] bind_raises [of ma llm_complete render f s]
    by simp
  have j: "if history nested = [] \<or> quality_entry_numeric (last (history nested))
        then (\<exists>r s'. rmp_join llm_complete render nested s = Inr (r, s')
                \<and> monad_prompt.meta_level r = monad_prompt.meta_level nested
                \<and> history r = history nested)
        else rmp_join llm_complete render nested s = Inl TypeError"
  proof (cases "history nested = [] \<or> quality_entry_numeric (last (history nested))")
    case True
    then obtain imp where "extract_improvement nested = Inr imp"
      using extract_improvement_returns by blast
    from rmp_join_returns [OF this, of llm_complete render s] True show ?thesis
      by auto
  next
    case False
    then have "extract_improvement nested = Inl TypeError"
      using extract_improvement_raises by simp
    from rmp_join_raises [OF this, of llm_complete render s] False show ?thesis
      by simp
  qed
  have jm: "join (create_recursive_meta_monad llm_complete render) = rmp_join llm_complete render"
    by (simp add: create_recursive_meta_monad_def)
  show ?thesis
    unfolding Let_def jm using b j by simp
qed

text \<open>The two identity laws: the result of a bind is one level above its argument, and
  \<open>_monadic_prompts_equal\<close> compares the levels.\<close>

lemma create_unit:
  "unit (create_recursive_meta_monad llm_complete render) = rmp_unit llm_complete render"
  by (simp add: create_recursive_meta_monad_def)

lemma rmp_unit_fields:
  "monad_prompt.meta_level (fst (rmp_unit llm_complete render p s)) = 0"
  "prompt (fst (rmp_unit llm_complete render p s)) = p"
  "history (fst (rmp_unit llm_complete render p s)) = []"
  by (simp_all add: rmp_unit_def Let_def split: prod.splits)

lemma monadic_prompts_equal_meta_level:
  "monad_prompt.meta_level mp1 \<noteq> monad_prompt.meta_level mp2 \<Longrightarrow>
     monadic_prompts_equal sha256 mp1 mp2 = False"
  by (simp add: monadic_prompts_equal_def)

text \<open>
  C1. Monad right identity, \<open>bind(m, unit) \<approx> m\<close> under \<open>_monadic_prompts_equal\<close>,
  is what the claim, the docstrings of monad.py and \<open>test_monad.py\<close> state. On the code
  \<open>verify_right_identity(ma)\<close> is \<open>False\<close> for every \<open>ma\<close>, every completion
  collaborator and every hash function (or raises \<open>TypeError\<close> when the comparison
  of \<open>extract_improvement\<close> cannot be made): the left side has
  \<open>meta_level = ma.meta_level + 1\<close>.
\<close>

theorem right_identity_fails:
  "let M = create_recursive_meta_monad llm_complete render in
     if quality_entry_numeric (prompt ma)
     then \<exists>s'. verify_right_identity M sha256 ma s = Inr (False, s')
     else verify_right_identity M sha256 ma s = Inl TypeError"
proof (cases "quality_entry_numeric (prompt ma)")
  case True
  let ?M = "create_recursive_meta_monad llm_complete render"
  from bind_returns [OF True, of llm_complete render "unit ?M" s]
  obtain r s' where b: "bind ?M ma (unit ?M) s = Inr (r, s')"
    and m: "monad_prompt.meta_level r = monad_prompt.meta_level ma + 1"
    by blast
  from m have "monadic_prompts_equal sha256 r ma = False"
    by (intro monadic_prompts_equal_meta_level) simp
  with b have "verify_right_identity ?M sha256 ma s = Inr (False, s')"
    by (simp add: verify_right_identity_def Let_def)
  with True show ?thesis
    unfolding Let_def by auto
next
  case False
  from bind_raises [OF False, of llm_complete render _ s] False show ?thesis
    by (simp add: verify_right_identity_def Let_def)
qed

text \<open>
  C2. Monad left identity, \<open>bind(unit(p), f) \<approx> f(p)\<close>, is what the claim, the
  docstrings of monad.py and \<open>test_monad.py\<close> state. On the code
  \<open>verify_left_identity(a, f)\<close> is \<open>False\<close> for every prompt \<open>a\<close> and every
  \<open>f\<close> of the form \<open>lambda p: unit(g(p))\<close> (the functions of the tests and of the
  docstrings): the left side has \<open>meta_level = 1\<close>, the right side \<open>0\<close>.
\<close>

theorem left_identity_fails:
  "let M = create_recursive_meta_monad llm_complete render;
       f = (\<lambda>p. unit M (g p)) in
     if quality_entry_numeric a
     then \<exists>s'. verify_left_identity M sha256 a f s = Inr (False, s')
     else verify_left_identity M sha256 a f s = Inl TypeError"
proof -
  let ?M = "create_recursive_meta_monad llm_complete render"
  let ?f = "\<lambda>p. unit ?M (g p)"
  obtain ua s1 where u: "unit ?M a s = (ua, s1)"
    by (cases "unit ?M a s")
  then have ua: "ua = fst (rmp_unit llm_complete render a s)"
    by (simp add: create_unit)
  have pa: "prompt ua = a" and ma: "monad_prompt.meta_level ua = 0"
    unfolding ua by (rule rmp_unit_fields)+
  show ?thesis
  proof (cases "quality_entry_numeric a")
    case True
    then have "quality_entry_numeric (prompt ua)"
      by (simp add: pa)
    from bind_returns [OF this, of llm_complete render ?f s1]
    obtain r s2 where b: "bind ?M ua ?f s1 = Inr (r, s2)"
      and m: "monad_prompt.meta_level r = monad_prompt.meta_level ua + 1"
      by blast
    obtain right_side s3 where f: "?f a s2 = (right_side, s3)"
      by (cases "?f a s2")
    then have "right_side = fst (rmp_unit llm_complete render (g a) s2)"
      by (simp add: create_unit)
    then have "monad_prompt.meta_level right_side = 0"
      by (simp add: rmp_unit_fields)
    with m ma have "monadic_prompts_equal sha256 r right_side = False"
      by (intro monadic_prompts_equal_meta_level) simp
    with u b f have "verify_left_identity ?M sha256 a ?f s = Inr (False, s3)"
      by (simp add: verify_left_identity_def Let_def)
    with True show ?thesis
      unfolding Let_def by auto
  next
    case False
    then have "\<not> quality_entry_numeric (prompt ua)"
      by (simp add: pa)
    from bind_raises [OF this, of llm_complete render ?f s1] u False show ?thesis
      by (simp add: verify_left_identity_def Let_def)
  qed
qed

text \<open>
  C3. The value of \<open>tensor_product(q1, q2)\<close> is the minimum of the two values, for all
  quality scores (those with values in [0,1] among them); so the quality of the nested
  value that \<open>bind\<close> builds from \<open>ma\<close> and \<open>mb\<close> is that minimum and exceeds
  neither of the two.
\<close>

theorem tensor_product_min:
  "qvalue (tensor_product q1 q2) = min (qvalue q1) (qvalue q2)
   \<and> qvalue (quality (nested_monad ma mb)) = min (qvalue (quality ma)) (qvalue (quality mb))
   \<and> qvalue (quality (nested_monad ma mb)) \<le> qvalue (quality ma)
   \<and> qvalue (quality (nested_monad ma mb)) \<le> qvalue (quality mb)"
  by (simp add: tensor_product_def nested_monad_def)

section \<open>The decision policy of \<open>extract_improvement\<close>\<close>

text \<open>
  C5, as amended. Let the stagnation rule (the third rule) be decidable, \<open>fires\<close> saying
  whether it fires (the history is non-empty and the quality is at most the one recorded
  in the last prompt of the history, 0.5 when none is recorded). Then
  \<open>extract_improvement\<close> returns a dictionary in which each of the three flags is set
  exactly when its rule matched, and \<open>strategy\<close> is that of the last rule that
  matched. For a value with quality below 0.80 and \<open>meta_level = 0\<close>: when the
  stagnation rule does not fire, \<open>needs_clarity\<close> and \<open>add_meta_reflection\<close> are
  set and the strategy is \<open>add_reasoning_steps\<close>; when it fires, all three flags are
  set and the strategy is \<open>try_different_approach\<close>.
\<close>

theorem extract_improvement_policy:
  assumes "stagnation_check mp = Inr fires"
  shows "\<exists>imp. extract_improvement mp = Inr imp
     \<and> imp ''needs_clarity'' =
         (if qvalue (quality mp) < 0.80 then Some (Scalar (PyBool True)) else None)
     \<and> imp ''add_meta_reflection'' =
         (if monad_prompt.meta_level mp = 0 then Some (Scalar (PyBool True)) else None)
     \<and> imp ''quality_stagnant'' = (if fires then Some (Scalar (PyBool True)) else None)
     \<and> imp ''strategy'' =
         (if fires then Some (Scalar (PyStr ''try_different_approach''))
          else if monad_prompt.meta_level mp = 0 then Some (Scalar (PyStr ''add_reasoning_steps''))
          else if qvalue (quality mp) < 0.80 then Some (Scalar (PyStr ''add_structure''))
          else None)
     \<and> (qvalue (quality mp) < 0.80 \<and> monad_prompt.meta_level mp = 0 \<and> \<not> fires \<longrightarrow>
          imp ''needs_clarity'' = Some (Scalar (PyBool True))
          \<and> imp ''add_meta_reflection'' = Some (Scalar (PyBool True))
          \<and> imp ''strategy'' = Some (Scalar (PyStr ''add_reasoning_steps'')))
     \<and> (qvalue (quality mp) < 0.80 \<and> monad_prompt.meta_level mp = 0 \<and> fires \<longrightarrow>
          imp ''needs_clarity'' = Some (Scalar (PyBool True))
          \<and> imp ''add_meta_reflection'' = Some (Scalar (PyBool True))
          \<and> imp ''quality_stagnant'' = Some (Scalar (PyBool True))
          \<and> imp ''strategy'' = Some (Scalar (PyStr ''try_different_approach'')))"
proof (cases "history mp = []")
  case True
  with assms have "\<not> fires"
    by (simp add: stagnation_check_def)
  with True show ?thesis
    by (simp add: extract_improvement_def Let_def)
next
  case False
  with assms have "float_le (qvalue (quality mp))
             (case pcontext (last (history mp)) ''quality'' of
                None \<Rightarrow> Scalar (PyNum 0.5)
              | Some v \<Rightarrow> v) = Inr fires"
    by (simp add: stagnation_check_def)
  with False show ?thesis
    by (simp add: extract_improvement_def Let_def)
qed

text \<open>The policy at a value of quality 0.4, level 0 and empty history.\<close>

theorem extract_improvement_policy_witness:
  "stagnation_check \<lparr>prompt = \<lparr>template = ''Solve'', variables = Map.empty, pcontext = Map.empty, prompt.meta_level = 0\<rparr>,
      quality = \<lparr>qvalue = 0.4, components = Map.empty\<rparr>, meta_level = 0, history = []\<rparr> = Inr False
   \<and> (\<exists>imp. extract_improvement \<lparr>prompt = \<lparr>template = ''Solve'', variables = Map.empty, pcontext = Map.empty, prompt.meta_level = 0\<rparr>,
      quality = \<lparr>qvalue = 0.4, components = Map.empty\<rparr>, meta_level = 0, history = []\<rparr> = Inr imp
      \<and> imp ''needs_clarity'' = Some (Scalar (PyBool True))
      \<and> imp ''add_meta_reflection'' = Some (Scalar (PyBool True))
      \<and> imp ''quality_stagnant'' = None
      \<and> imp ''strategy'' = Some (Scalar (PyStr ''add_reasoning_steps'')))"
proof -
  let ?mp = "\<lparr>prompt = \<lparr>template = ''Solve'', variables = Map.empty, pcontext = Map.empty, prompt.meta_level = 0\<rparr>,
      quality = \<lparr>qvalue = 0.4, components = Map.empty\<rparr>, meta_level = 0, history = []\<rparr>"
  have h: "stagnation_check ?mp = Inr False"
    by (simp add: stagnation_check_def)
  from extract_improvement_policy [OF h] h show ?thesis
    by auto
qed

text \<open>C5 as stated fails at a value of quality 0.4 and level 0 whose history holds one
  prompt with no recorded quality: the stagnation rule fires (0.4 is at most 0.5) and the
  strategy is \<open>try_different_approach\<close>, not \<open>add_reasoning_steps\<close>.\<close>

theorem extract_improvement_counterexample:
  "qvalue (quality \<lparr>prompt = \<lparr>template = ''Solve'', variables = Map.empty, pcontext = Map.empty, prompt.meta_level = 0\<rparr>,
      quality = \<lparr>qvalue = 0.4, components = Map.empty\<rparr>, meta_level = 0,
      history = [\<lparr>template = ''Solve'', variables = Map.empty, pcontext = Map.empty, prompt.meta_level = 0\<rparr>]\<rparr>) < 0.80
   \<and> monad_prompt.meta_level \<lparr>prompt = \<lparr>template = ''Solve'', variables = Map.empty, pcontext = Map.empty, prompt.meta_level = 0\<rparr>,
      quality = \<lparr>qvalue = 0.4, components = Map.empty\<rparr>, meta_level = 0,
      history = [\<lparr>template = ''Solve'', variables = Map.empty, pcontext = Map.empty, prompt.meta_level = 0\<rparr>]\<rparr> = 0
   \<and> extract_improvement \<lparr>prompt = \<lparr>template = ''Solve'', variables = Map.empty, pcontext = Map.empty, prompt.meta_level = 0\<rparr>,
      quality = \<lparr>qvalue = 0.4, components = Map.empty\<rparr>, meta_level = 0,
      history = [\<lparr>template = ''Solve'', variables = Map.empty, pcontext = Map.empty, prompt.meta_level = 0\<rparr>]\<rparr>
     = Inr [''needs_clarity'' \<mapsto> Scalar (PyBool True),
            ''strategy'' \<mapsto> Scalar (PyStr ''try_different_approach''),
            ''add_meta_reflection'' \<mapsto> Scalar (PyBool True),
            ''quality_stagnant'' \<mapsto> Scalar (PyBool True)]
   \<and> Scalar (PyStr ''try_different_approach'') \<noteq> Scalar (PyStr ''add_reasoning_steps'')"
  by (simp add: extract_improvement_def Let_def fun_eq_iff)

section \<open>Properties of the Functor\<close>

text \<open>
  C7. For every task, the prompt of \<open>map_object\<close> carries the complexity analysis and
  a strategy determined by its overall score alone: below 0.3 Direct Execution, from 0.3
  and below 0.7 Multi-Approach Synthesis, from 0.7 Autonomous Evolution.
\<close>

theorem strategy_selection_threshold:
  "let c = analyze_complexity t; p = map_object analyze_complexity scaffold t in
     pcontext p ''complexity'' = Some (ComplexityObj c)
     \<and> (overall c < 0.3 \<longrightarrow> pcontext p ''strategy'' = Some (StrategyObj DirectExecution))
     \<and> (0.3 \<le> overall c \<and> overall c < 0.7 \<longrightarrow>
          pcontext p ''strategy'' = Some (StrategyObj MultiApproachSynthesis))
     \<and> (0.7 \<le> overall c \<longrightarrow> pcontext p ''strategy'' = Some (StrategyObj AutonomousEvolution))"
  by (simp add: map_object_def select_strategy_def Let_def split: prod.splits)

text \<open>The four boundary scores 0.29, 0.30, 0.69 and 0.70.\<close>

theorem strategy_selection_threshold_witness:
  "pcontext (map_object (\<lambda>t. \<lparr>overall = 0.29\<rparr>) (\<lambda>st t. (description t, Map.empty))
      \<lparr>description = ''Solve: find max'', complexity = None, constraints = [], examples = [], task.metadata = Map.empty\<rparr>)
      ''strategy'' = Some (StrategyObj DirectExecution)
   \<and> pcontext (map_object (\<lambda>t. \<lparr>overall = 0.3\<rparr>) (\<lambda>st t. (description t, Map.empty))
      \<lparr>description = ''Solve: find max'', complexity = None, constraints = [], examples = [], task.metadata = Map.empty\<rparr>)
      ''strategy'' = Some (StrategyObj MultiApproachSynthesis)
   \<and> pcontext (map_object (\<lambda>t. \<lparr>overall = 0.69\<rparr>) (\<lambda>st t. (description t, Map.empty))
      \<lparr>description = ''Solve: find max'', complexity = None, constraints = [], examples = [], task.metadata = Map.empty\<rparr>)
      ''strategy'' = Some (StrategyObj MultiApproachSynthesis)
   \<and> pcontext (map_object (\<lambda>t. \<lparr>overall = 0.7\<rparr>) (\<lambda>st t. (description t, Map.empty))
      \<lparr>description = ''Solve: find max'', complexity = None, constraints = [], examples = [], task.metadata = Map.empty\<rparr>)
      ''strategy'' = Some (StrategyObj AutonomousEvolution)"
proof -
  let ?t = "\<lparr>description = ''Solve: find max'', complexity = None, constraints = [], examples = [], task.metadata = Map.empty\<rparr>"
  let ?sc = "\<lambda>(st :: strategy) t. (description t, Map.empty :: string \<rightharpoonup> string)"
  note a = strategy_selection_threshold [of "\<lambda>t. \<lparr>overall = 0.29\<rparr>" ?t ?sc]
  note b = strategy_selection_threshold [of "\<lambda>t. \<lparr>overall = 0.3\<rparr>" ?t ?sc]
  note c = strategy_selection_threshold [of "\<lambda>t. \<lparr>overall = 0.69\<rparr>" ?t ?sc]
  note d = strategy_selection_threshold [of "\<lambda>t. \<lparr>overall = 0.7\<rparr>" ?t ?sc]
  have "pcontext (map_object (\<lambda>t. \<lparr>overall = 0.29\<rparr>) ?sc ?t) ''strategy'' = Some (StrategyObj DirectExecution)"
    using a unfolding Let_def by simp
  moreover have "pcontext (map_object (\<lambda>t. \<lparr>overall = 0.3\<rparr>) ?sc ?t) ''strategy'' = Some (StrategyObj MultiApproachSynthesis)"
    using b unfolding Let_def by simp
  moreover have "pcontext (map_object (\<lambda>t. \<lparr>overall = 0.69\<rparr>) ?sc ?t) ''strategy'' = Some (StrategyObj MultiApproachSynthesis)"
    using c unfolding Let_def by simp
  moreover have "pcontext (map_object (\<lambda>t. \<lparr>overall = 0.7\<rparr>) ?sc ?t) ''strategy'' = Some (StrategyObj AutonomousEvolution)"
    using d unfolding Let_def by simp
  ultimately show ?thesis by blast
qed

section \<open>Properties of the Comonad and of the context store\<close>

text \<open>
  C8. For every observation \<open>w\<close>, \<open>duplicate(w)\<close> is a new observation whose
  \<open>current\<close> is \<open>w\<close> itself (so \<open>extract\<close> gives \<open>w\<close> back), whose history is
  \<open>[w] + w.history\<close> (of length \<open>len(w.history) + 1\<close>, with \<open>w\<close> at index 0) and
  whose context carries \<open>meta_observation = True\<close>, the keys of the context of \<open>w\<close>,
  the timestamp and \<open>history_depth = len(w.history)\<close>.
\<close>

theorem duplicate_non_destructive:
  "let d = duplicate now observation_quality completeness w in
     current d = Nested w
     \<and> comonad_extract d = Nested w
     \<and> obs_history d = w # obs_history w
     \<and> length (obs_history d) = length (obs_history w) + 1
     \<and> obs_history d ! 0 = w
     \<and> map_of (obs_context d) ''meta_observation'' = Some (Scalar (PyBool True))
     \<and> map_of (obs_context d) ''original_context_keys'' = Some (StrList (map fst (obs_context w)))
     \<and> map_of (obs_context d) ''observation_timestamp'' = Some (Scalar (PyNum now))
     \<and> map_of (obs_context d) ''history_depth'' = Some (Scalar (PyNum (real (length (obs_history w)))))"
  by (simp add: duplicate_def comonad_extract_def Let_def update_conv')








end
